theory Spec2Isabelle
  imports Main
begin

section \<open>Python values and exceptions\<close>

text \<open>
  The researcher receives dynamically typed values from its three providers and sniffs
  their shape with \<^verbatim>\<open>hasattr\<close>, \<^verbatim>\<open>isinstance\<close> and \<^verbatim>\<open>in\<close>. The universe below holds
  what those tests distinguish: \<open>None\<close>, strings, integers, lists, mappings (association
  lists with distinct keys) and plain data objects (a class name and the attributes set on
  the instance; such an object has no length, no subscript and no iterator).
  A string is a list of characters, one \<open>char\<close> for each position that \<^verbatim>\<open>len\<close> counts.
\<close>

datatype pyval =
    PNone
  | PStr string
  | PInt int
  | PList "pyval list"
  | PDict "(string \<times> pyval) list"
  | PObj string "(string \<times> pyval) list"

text \<open>
  An \<open>exn\<close> is an instance of a subclass of \<^verbatim>\<open>Exception\<close>: its class name and the text
  \<^verbatim>\<open>str(e)\<close>. Every handler of the program is \<^verbatim>\<open>except Exception\<close>. What leaves
  the interpreter without being an \<^verbatim>\<open>Exception\<close> (\<^verbatim>\<open>KeyboardInterrupt\<close>,
  \<^verbatim>\<open>SystemExit\<close>) is not a fault of a provider and has no value in this type.
\<close>

datatype exn = PyExc (exc_class: string) (exc_str: string)

definition NL :: string where
  "NL = [CHR 0x0A]"

definition SQ :: string where
  "SQ = [CHR 0x27]"

definition DQ :: string where
  "DQ = [CHR 0x22]"

function show_nat :: "nat \<Rightarrow> string" where
  "show_nat n =
     (if n < 10 then [''0123456789'' ! n]
      else show_nat (n div 10) @ [''0123456789'' ! (n mod 10)])"
  by pat_completeness auto
termination
  by (relation "measure id") auto

declare show_nat.simps [simp del]

definition show_int :: "int \<Rightarrow> string" where
  "show_int i = (if i < 0 then ''-'' @ show_nat (nat (- i)) else show_nat (nat i))"

definition py_type_name :: "pyval \<Rightarrow> string" where
  "py_type_name v =
     (case v of PNone \<Rightarrow> ''NoneType'' | PStr _ \<Rightarrow> ''str'' | PInt _ \<Rightarrow> ''int''
      | PList _ \<Rightarrow> ''list'' | PDict _ \<Rightarrow> ''dict'' | PObj c _ \<Rightarrow> c)"

text \<open>
  \<^verbatim>\<open>getattr(v, name)\<close> for the attribute names the program asks for (results, markdown,
  data, title, url, publishedDate, author, text). A data object has the attributes it
  carries; of the builtin types only \<^verbatim>\<open>str\<close> has one of these names, the method
  \<^verbatim>\<open>str.title\<close>.
\<close>

definition py_getattr :: "pyval \<Rightarrow> string \<Rightarrow> pyval option" where
  "py_getattr v name =
     (case v of
        PObj c attrs \<Rightarrow> map_of attrs name
      | PStr s \<Rightarrow> (if name = ''title'' then Some (PObj ''builtin_function_or_method'' []) else None)
      | _ \<Rightarrow> None)"

definition py_hasattr :: "pyval \<Rightarrow> string \<Rightarrow> bool" where
  "py_hasattr v name = (py_getattr v name \<noteq> None)"

definition py_getattr_default :: "pyval \<Rightarrow> string \<Rightarrow> pyval \<Rightarrow> pyval" where
  "py_getattr_default v name d = (case py_getattr v name of None \<Rightarrow> d | Some x \<Rightarrow> x)"

definition is_dict :: "pyval \<Rightarrow> bool" where
  "is_dict v = (case v of PDict _ \<Rightarrow> True | _ \<Rightarrow> False)"

definition dict_items :: "pyval \<Rightarrow> (string \<times> pyval) list" where
  "dict_items v = (case v of PDict kvs \<Rightarrow> kvs | _ \<Rightarrow> [])"

definition dict_get :: "(string \<times> pyval) list \<Rightarrow> string \<Rightarrow> pyval \<Rightarrow> pyval" where
  "dict_get kvs k d = (case map_of kvs k of None \<Rightarrow> d | Some x \<Rightarrow> x)"

definition dict_has :: "pyval \<Rightarrow> string \<Rightarrow> bool" where
  "dict_has v k = (is_dict v \<and> map_of (dict_items v) k \<noteq> None)"

definition py_truthy :: "pyval \<Rightarrow> bool" where
  "py_truthy v =
     (case v of PNone \<Rightarrow> False | PStr s \<Rightarrow> s \<noteq> [] | PInt i \<Rightarrow> i \<noteq> 0
      | PList xs \<Rightarrow> xs \<noteq> [] | PDict kvs \<Rightarrow> kvs \<noteq> [] | PObj _ _ \<Rightarrow> True)"

definition py_len :: "pyval \<Rightarrow> exn + nat" where
  "py_len v =
     (case v of
        PStr s \<Rightarrow> Inr (length s)
      | PList xs \<Rightarrow> Inr (length xs)
      | PDict kvs \<Rightarrow> Inr (length kvs)
      | _ \<Rightarrow> Inl (PyExc ''TypeError''
               (''object of type '' @ SQ @ py_type_name v @ SQ @ '' has no len()'')))"

text \<open>
  \<^verbatim>\<open>v[:n]\<close>. A mapping rejects the slice as a key (with this \<^verbatim>\<open>TypeError\<close> up to
  Python 3.11, with a \<^verbatim>\<open>KeyError\<close> from 3.12 on; both are caught alike).
\<close>

definition py_slice_to :: "nat \<Rightarrow> pyval \<Rightarrow> exn + pyval" where
  "py_slice_to n v =
     (case v of
        PStr s \<Rightarrow> Inr (PStr (take n s))
      | PList xs \<Rightarrow> Inr (PList (take n xs))
      | PDict _ \<Rightarrow> Inl (PyExc ''TypeError'' (''unhashable type: '' @ SQ @ ''slice'' @ SQ))
      | _ \<Rightarrow> Inl (PyExc ''TypeError''
               (SQ @ py_type_name v @ SQ @ '' object is not subscriptable'')))"

text \<open>\<^verbatim>\<open>v + "..."\<close> for a value that has just been sliced (a string or a list).\<close>

definition py_add_str :: "pyval \<Rightarrow> string \<Rightarrow> exn + pyval" where
  "py_add_str v t =
     (case v of
        PStr s \<Rightarrow> Inr (PStr (s @ t))
      | PList _ \<Rightarrow> Inl (PyExc ''TypeError''
            (''can only concatenate list (not '' @ DQ @ ''str'' @ DQ @ '') to list''))
      | _ \<Rightarrow> Inl (PyExc ''TypeError''
            (''unsupported operand type(s) for +: '' @ SQ @ py_type_name v @ SQ
               @ '' and '' @ SQ @ ''str'' @ SQ)))"

text \<open>The items a \<^verbatim>\<open>for\<close> loop draws from a value.\<close>

definition py_iter :: "pyval \<Rightarrow> exn + pyval list" where
  "py_iter v =
     (case v of
        PList xs \<Rightarrow> Inr xs
      | PStr s \<Rightarrow> Inr (map (\<lambda>c. PStr [c]) s)
      | PDict kvs \<Rightarrow> Inr (map (\<lambda>kv. PStr (fst kv)) kvs)
      | _ \<Rightarrow> Inl (PyExc ''TypeError''
               (SQ @ py_type_name v @ SQ @ '' object is not iterable'')))"

fun py_join :: "string \<Rightarrow> string list \<Rightarrow> string" where
  "py_join sep [] = []"
| "py_join sep [x] = x"
| "py_join sep (x # y # ys) = x @ sep @ py_join sep (y # ys)"

section \<open>Records of a run\<close>

text \<open>
  A timestamp is the instant \<^verbatim>\<open>datetime.now()\<close> reads, counted in microseconds. The
  program keeps the instant's \<^verbatim>\<open>isoformat()\<close> text and compares two of them with
  \<^verbatim>\<open>>\<close>; these fixed-width texts compare as the instants do.
\<close>

type_synonym timestamp = nat

datatype content_block =
    TextBlock string
  | ToolUseBlock string string "(string \<times> pyval) list"
  | OtherBlock string

datatype msg_content =
    Text string
  | Blocks "content_block list"
  | ToolResult string pyval

record message =
  role :: string
  content :: msg_content

record search_record =
  sr_query :: pyval
  sr_timestamp :: timestamp
  sr_num_results :: nat
  sr_start_date :: pyval
  sr_end_date :: pyval
  sr_error :: "string option"

record fetch_record =
  fr_url :: pyval
  fr_timestamp :: timestamp
  fr_success :: bool
  fr_content_length :: "nat option"
  fr_error :: "string option"

record iteration_record =
  it_iteration :: nat
  it_query :: string
  it_response :: string
  it_search_queries :: "search_record list"
  it_content_retrievals :: "fetch_record list"
  it_timestamp :: timestamp

record research_data =
  rd_query :: string
  rd_model :: "string option"
  rd_iterations :: "iteration_record list"
  rd_search_history :: "search_record list"
  rd_content_retrieval_history :: "fetch_record list"
  rd_final_report :: "string option"
  rd_error :: "string option"
  rd_timestamp :: timestamp

record progress_event =
  pe_message :: string
  pe_type :: string
  pe_iteration_num :: "nat option"
  pe_total_iterations :: "int option"

text \<open>
  The mutable fields of an \<^verbatim>\<open>AgenticResearcher\<close>, the calls its progress callback has
  received, and \<open>tick\<close>, the number of interactions with the outside (provider calls and
  clock reads) made so far.
\<close>

record state =
  messages :: "message list"
  research_iterations :: "iteration_record list"
  search_history :: "search_record list"
  content_retrieval_history :: "fetch_record list"
  progress_log :: "progress_event list"
  tick :: nat

record request =
  rq_model :: string
  rq_max_tokens :: nat
  rq_system :: string
  rq_messages :: "message list"
  rq_tools :: bool

text \<open>
  \<^verbatim>\<open>search_and_contents\<close> is always called with the same type, category and text limit;
  the parameters that vary are kept.
\<close>

record search_params =
  sp_query :: pyval
  sp_num_results :: int
  sp_start_published_date :: "pyval option"
  sp_end_published_date :: "pyval option"

text \<open>
  The collaborators of a researcher and its fixed settings. Each provider answers the
  interaction numbered \<open>tick\<close> with a value or raises; \<open>now\<close> is the clock;
  \<open>progress_callback\<close> says whether a callback is set (a callback returns normally);
  \<open>py_repr\<close> is the text Python prints for a list, a mapping or an object.
\<close>

record env =
  messages_create :: "nat \<Rightarrow> request \<Rightarrow> exn + content_block list"
  search_and_contents :: "nat \<Rightarrow> search_params \<Rightarrow> exn + pyval"
  scrape_url :: "nat \<Rightarrow> pyval \<Rightarrow> exn + pyval"
  now :: "nat \<Rightarrow> timestamp"
  model :: string
  system_prompt :: string
  results_per_search :: int
  progress_callback :: bool
  py_repr :: "pyval \<Rightarrow> string"

definition py_str :: "env \<Rightarrow> pyval \<Rightarrow> string" where
  "py_str env v =
     (case v of PStr s \<Rightarrow> s | PNone \<Rightarrow> ''None'' | PInt i \<Rightarrow> show_int i
      | _ \<Rightarrow> py_repr env v)"

definition update_progress ::
  "env \<Rightarrow> string \<Rightarrow> string \<Rightarrow> nat option \<Rightarrow> int option \<Rightarrow> state \<Rightarrow> state" where
  "update_progress env msg progress_type iteration_num total_iterations s =
     (if progress_callback env
      then s\<lparr>progress_log := progress_log s @
             [\<lparr>pe_message = msg, pe_type = progress_type,
               pe_iteration_num = iteration_num,
               pe_total_iterations = total_iterations\<rparr>]\<rparr>
      else s)"

definition read_clock :: "env \<Rightarrow> state \<Rightarrow> timestamp \<times> state" where
  "read_clock env s = (now env (tick s), s\<lparr>tick := Suc (tick s)\<rparr>)"

section \<open>format_search_results\<close>

definition excerpt :: "pyval \<Rightarrow> exn + pyval" where
  "excerpt text =
     (case py_len text of
        Inl e \<Rightarrow> Inl e
      | Inr n \<Rightarrow>
          if n > 2000
          then (case py_slice_to 2000 text of
                  Inl e \<Rightarrow> Inl e
                | Inr sliced \<Rightarrow> py_add_str sliced ''...'')
          else Inr text)"

definition article_header :: "nat \<Rightarrow> string" where
  "article_header idx = ''--- Article '' @ show_nat (idx + 1) @ '' ---'' @ NL"

text \<open>The body of the \<^verbatim>\<open>try\<close> block of the loop over the results.\<close>

definition article_text :: "env \<Rightarrow> nat \<Rightarrow> pyval \<Rightarrow> exn + string" where
  "article_text env idx result =
     (let field = (\<lambda>name.
            if is_dict result then dict_get (dict_items result) name (PStr ''N/A'')
            else py_getattr_default result name (PStr ''N/A''));
          text = (if is_dict result then map_of (dict_items result) ''text''
                  else py_getattr result ''text'');
          head = article_header idx
            @ ''Title: '' @ py_str env (field ''title'') @ NL
            @ ''URL: '' @ py_str env (field ''url'') @ NL
            @ ''Published: '' @ py_str env (field ''publishedDate'') @ NL
            @ ''Author: '' @ py_str env (field ''author'') @ NL
      in case text of
           None \<Rightarrow> Inr head
         | Some t \<Rightarrow>
             (case excerpt t of
                Inl e \<Rightarrow> Inl e
              | Inr c \<Rightarrow> Inr (head @ ''Content excerpt:'' @ NL @ py_str env c @ NL @ NL)))"

definition error_block :: "nat \<Rightarrow> string" where
  "error_block idx = article_header idx @ ''[Error formatting this result]'' @ NL @ NL"

text \<open>The loop over \<^verbatim>\<open>enumerate(results)\<close>, appending to \<^verbatim>\<open>formatted\<close>.\<close>

fun format_loop :: "env \<Rightarrow> nat \<Rightarrow> pyval list \<Rightarrow> string list \<Rightarrow> string list" where
  "format_loop env idx [] formatted = formatted"
| "format_loop env idx (result # results) formatted =
     format_loop env (idx + 1) results
       (formatted @ [case article_text env idx result of
                       Inr t \<Rightarrow> t
                     | Inl e \<Rightarrow> error_block idx])"

text \<open>
  The first \<^verbatim>\<open>try\<close> block reads the results attribute style, then mapping style
  (\<open>get_results\<close>; \<open>None\<close> is its \<^verbatim>\<open>else\<close> branch, which leaves the empty list). No
  operation of that block raises on a value of \<open>pyval\<close>, so its handler has no branch
  here. The loop's \<^verbatim>\<open>enumerate(results)\<close> stands outside every \<^verbatim>\<open>try\<close>.
\<close>

definition get_results :: "pyval \<Rightarrow> pyval option" where
  "get_results search_response =
     (if py_hasattr search_response ''results''
      then Some (py_getattr_default search_response ''results'' PNone)
      else if dict_has search_response ''results''
      then Some (dict_get (dict_items search_response) ''results'' PNone)
      else None)"

definition format_search_results :: "env \<Rightarrow> pyval \<Rightarrow> state \<Rightarrow> (exn + string) \<times> state" where
  "format_search_results env search_response s =
     (if search_response = PNone then (Inr ''No search results found.'', s)
      else
        let (results, s1) =
              (case get_results search_response of
                 Some found \<Rightarrow> (found, s)
               | None \<Rightarrow>
                   (PList [],
                    update_progress env ''Unexpected search response format'' ''error''
                      None None s))
        in case py_iter results of
             Inl e \<Rightarrow> (Inl e, s1)
           | Inr items \<Rightarrow>
               let formatted = format_loop env 0 items []
               in if formatted = [] then (Inr ''No results found for the given query.'', s1)
                  else (Inr (py_join NL formatted), s1))"

section \<open>The capability adapters\<close>

text \<open>The defensive count of \<^verbatim>\<open>search_with_exa\<close>: attribute style, mapping style, else 0.\<close>

definition count_results :: "pyval \<Rightarrow> exn + nat" where
  "count_results results =
     (if py_hasattr results ''results''
      then py_len (py_getattr_default results ''results'' PNone)
      else if dict_has results ''results''
      then py_len (dict_get (dict_items results) ''results'' PNone)
      else Inr 0)"

text \<open>The \<^verbatim>\<open>except\<close> handler of \<^verbatim>\<open>search_with_exa\<close>.\<close>

definition search_failed ::
  "env \<Rightarrow> pyval \<Rightarrow> pyval \<Rightarrow> pyval \<Rightarrow> exn \<Rightarrow> state \<Rightarrow> pyval \<times> state" where
  "search_failed env query start_date end_date e s =
     (let s1 = update_progress env (''Search error: '' @ exc_str e) ''error'' None None s;
          (t, s2) = read_clock env s1
      in (PNone,
          s2\<lparr>search_history := search_history s2 @
               [\<lparr>sr_query = query, sr_timestamp = t, sr_num_results = 0,
                 sr_start_date = start_date, sr_end_date = end_date,
                 sr_error = Some (exc_str e)\<rparr>]\<rparr>))"

text \<open>The date bounds are added to the parameters only when they are truthy.\<close>

definition build_search_params ::
  "pyval \<Rightarrow> int \<Rightarrow> pyval \<Rightarrow> pyval \<Rightarrow> search_params" where
  "build_search_params query n start_date end_date =
     \<lparr>sp_query = query, sp_num_results = n,
      sp_start_published_date = (if py_truthy start_date then Some start_date else None),
      sp_end_published_date = (if py_truthy end_date then Some end_date else None)\<rparr>"

definition search_with_exa ::
  "env \<Rightarrow> pyval \<Rightarrow> int option \<Rightarrow> pyval \<Rightarrow> pyval \<Rightarrow> state \<Rightarrow> pyval \<times> state" where
  "search_with_exa env query num_results start_date end_date s =
     (let n = (case num_results of None \<Rightarrow> results_per_search env | Some k \<Rightarrow> k);
          s1 = update_progress env (''Searching for: '' @ py_str env query) ''search''
                 None None s;
          search_params = build_search_params query n start_date end_date;
          s2 = s1\<lparr>tick := Suc (tick s1)\<rparr>
      in case search_and_contents env (tick s1) search_params of
           Inl e \<Rightarrow> search_failed env query start_date end_date e s2
         | Inr results \<Rightarrow>
             let (current_time, s3) = read_clock env s2
             in case count_results results of
                  Inl e \<Rightarrow> search_failed env query start_date end_date e s3
                | Inr result_count \<Rightarrow>
                    let s4 = s3\<lparr>search_history := search_history s3 @
                                 [\<lparr>sr_query = query, sr_timestamp = current_time,
                                   sr_num_results = result_count,
                                   sr_start_date = start_date, sr_end_date = end_date,
                                   sr_error = None\<rparr>]\<rparr>;
                        s5 = update_progress env
                               (''Found '' @ show_nat result_count @ '' results for ''
                                  @ SQ @ py_str env query @ SQ)
                               ''search'' None None s4
                    in (results, s5))"

text \<open>The shape sniffing of \<^verbatim>\<open>get_full_content\<close>.\<close>

definition recover_content :: "pyval \<Rightarrow> pyval" where
  "recover_content response =
     (let unavailable = PStr ''Error retrieving content''
      in if py_hasattr response ''markdown''
         then py_getattr_default response ''markdown'' unavailable
         else if py_hasattr response ''data''
         then (let data = py_getattr_default response ''data'' PNone
               in if py_hasattr data ''markdown''
                  then py_getattr_default data ''markdown'' unavailable
                  else if dict_has data ''markdown''
                  then dict_get (dict_items data) ''markdown'' unavailable
                  else unavailable)
         else if is_dict response
         then (if dict_has response ''data''
                  \<and> is_dict (dict_get (dict_items response) ''data'' PNone)
               then dict_get (dict_items (dict_get (dict_items response) ''data'' PNone))
                      ''markdown'' unavailable
               else dict_get (dict_items response) ''markdown'' unavailable)
         else unavailable)"

text \<open>The \<^verbatim>\<open>except\<close> handler of \<^verbatim>\<open>get_full_content\<close>.\<close>

definition fetch_failed :: "env \<Rightarrow> pyval \<Rightarrow> exn \<Rightarrow> state \<Rightarrow> pyval \<times> state" where
  "fetch_failed env url e s =
     (let s1 = update_progress env (''Content retrieval error: '' @ exc_str e) ''error''
                 None None s;
          (t, s2) = read_clock env s1
      in (PStr ''Error retrieving content'',
          s2\<lparr>content_retrieval_history := content_retrieval_history s2 @
               [\<lparr>fr_url = url, fr_timestamp = t, fr_success = False,
                 fr_content_length = None, fr_error = Some (exc_str e)\<rparr>]\<rparr>))"

text \<open>
  The entries of the record are evaluated in order: the clock is read before
  \<^verbatim>\<open>len(content)\<close> can raise, and the record is appended before the slice is taken.
\<close>

definition get_full_content :: "env \<Rightarrow> pyval \<Rightarrow> state \<Rightarrow> pyval \<times> state" where
  "get_full_content env url s =
     (let s1 = update_progress env (''Retrieving content from: '' @ py_str env url)
                 ''content'' None None s;
          s2 = s1\<lparr>tick := Suc (tick s1)\<rparr>
      in case scrape_url env (tick s1) url of
           Inl e \<Rightarrow> fetch_failed env url e s2
         | Inr response \<Rightarrow>
             let content = recover_content response;
                 (t, s3) = read_clock env s2
             in case py_len content of
                  Inl e \<Rightarrow> fetch_failed env url e s3
                | Inr n \<Rightarrow>
                    let s4 = s3\<lparr>content_retrieval_history := content_retrieval_history s3 @
                                 [\<lparr>fr_url = url, fr_timestamp = t,
                                   fr_success = (content \<noteq> PStr ''Error retrieving content''),
                                   fr_content_length = Some n, fr_error = None\<rparr>]\<rparr>;
                        s5 = update_progress env
                               (''Retrieved '' @ show_nat n @ '' characters from article'')
                               ''content'' None None s4
                    in case py_slice_to 100000 content of
                         Inl e \<Rightarrow> fetch_failed env url e s5
                       | Inr returned \<Rightarrow> (returned, s5))"

section \<open>The conversation driver\<close>

definition initialize_conversation :: "string \<Rightarrow> state \<Rightarrow> state" where
  "initialize_conversation user_query s =
     s\<lparr>messages :=
         [\<lparr>role = ''user'',
           content = Text (''I want to thoroughly research: '' @ SQ @ user_query @ SQ
             @ ''. Please search for relevant scientific literature on this topic.'')\<rparr>]\<rparr>"

text \<open>
  The blocks of a response are the SDK's typed blocks, so nothing in the loop of
  \<^verbatim>\<open>extract_text_content\<close> raises and its handler has no branch here.
\<close>

definition extract_text_content :: "content_block list \<Rightarrow> string" where
  "extract_text_content content_list =
     py_join NL (concat (map (\<lambda>item. case item of TextBlock t \<Rightarrow> [t] | _ \<Rightarrow> [])
                           content_list))"

text \<open>
  The arguments of \<^verbatim>\<open>messages.create\<close>; \<open>tools\<close> says whether the manifest of the two
  tools (\<^verbatim>\<open>web_search\<close>, \<^verbatim>\<open>get_article_content\<close>) is passed.
\<close>

definition claude_request :: "env \<Rightarrow> nat \<Rightarrow> bool \<Rightarrow> state \<Rightarrow> request" where
  "claude_request env max_tokens tools s =
     \<lparr>rq_model = model env, rq_max_tokens = max_tokens, rq_system = system_prompt env,
      rq_messages = messages s, rq_tools = tools\<rparr>"

definition call_claude ::
  "env \<Rightarrow> nat \<Rightarrow> bool \<Rightarrow> state \<Rightarrow> (exn + content_block list) \<times> state" where
  "call_claude env max_tokens tools s =
     (messages_create env (tick s) (claude_request env max_tokens tools s),
      s\<lparr>tick := Suc (tick s)\<rparr>)"

definition append_message :: "string \<Rightarrow> msg_content \<Rightarrow> state \<Rightarrow> state" where
  "append_message r c s = s\<lparr>messages := messages s @ [\<lparr>role = r, content = c\<rparr>]\<rparr>"

text \<open>
  The end of both tool branches: the follow-up completion without tools, whose text is
  returned after the response is appended to the conversation.
\<close>

definition request_analysis :: "env \<Rightarrow> string \<Rightarrow> state \<Rightarrow> (exn + string) \<times> state" where
  "request_analysis env announce s =
     (let s1 = update_progress env announce ''info'' None None s;
          (r, s2) = call_claude env 4000 False s1
      in case r of
           Inl e \<Rightarrow> (Inl e, s2)
         | Inr analysis_content \<Rightarrow>
             (Inr (extract_text_content analysis_content),
              append_message ''assistant'' (Blocks analysis_content) s2))"

text \<open>
  The count for the results summary of the driver: 0 unless the search result is truthy,
  then counted as in the adapter.
\<close>

definition summary_count :: "pyval \<Rightarrow> exn + nat" where
  "summary_count search_results =
     (if py_truthy search_results then count_results search_results else Inr 0)"

definition handle_web_search ::
  "env \<Rightarrow> content_block list \<Rightarrow> string \<Rightarrow> (string \<times> pyval) list \<Rightarrow> state
     \<Rightarrow> (exn + string) \<times> state" where
  "handle_web_search env response_content tool_use_id input s =
     (let search_query = dict_get input ''query'' (PStr '''');
          start_date = dict_get input ''start_date'' PNone;
          end_date = dict_get input ''end_date'' PNone;
          date_range_str =
            (if py_truthy start_date \<or> py_truthy end_date
             then '' with date range: ''
                    @ py_str env (if py_truthy start_date then start_date else PStr ''any'')
                    @ '' to ''
                    @ py_str env (if py_truthy end_date then end_date else PStr ''present'')
             else '''');
          s1 = update_progress env
                 (''Claude is searching for: '' @ SQ @ py_str env search_query @ SQ
                    @ date_range_str)
                 ''search'' None None s;
          s2 = append_message ''assistant'' (Blocks response_content) s1;
          (search_results, s3) = search_with_exa env search_query None start_date end_date s2;
          (formatted, s4) = format_search_results env search_results s3
      in case formatted of
           Inl e \<Rightarrow> (Inl e, s4)
         | Inr formatted_results \<Rightarrow>
             (case summary_count search_results of
                Inl e \<Rightarrow> (Inl e, s4)
              | Inr result_count \<Rightarrow>
                  let s5 = update_progress env
                             (''Found '' @ show_nat result_count
                                @ '' papers. Claude is analyzing...'')
                             ''info'' None None s4;
                      s6 = append_message ''user''
                             (ToolResult tool_use_id (PStr formatted_results)) s5
                  in request_analysis env ''Claude is analyzing search results...'' s6))"

definition handle_get_article_content ::
  "env \<Rightarrow> content_block list \<Rightarrow> string \<Rightarrow> (string \<times> pyval) list \<Rightarrow> state
     \<Rightarrow> (exn + string) \<times> state" where
  "handle_get_article_content env response_content tool_use_id input s =
     (let article_url = dict_get input ''url'' (PStr '''');
          s1 = update_progress env ''Claude is retrieving full article content...''
                 ''content'' None None s;
          s2 = append_message ''assistant'' (Blocks response_content) s1;
          (article_content, s3) = get_full_content env article_url s2;
          s4 = update_progress env ''Article retrieved. Claude is analyzing...''
                 ''info'' None None s3;
          s5 = append_message ''user'' (ToolResult tool_use_id article_content) s4
      in request_analysis env ''Claude is analyzing article content...'' s5)"

text \<open>
  The loop over \<^verbatim>\<open>response.content\<close>. Both tool branches return from inside the loop;
  when the loop ends no tool use was detected.
\<close>

fun scan_content ::
  "env \<Rightarrow> content_block list \<Rightarrow> content_block list \<Rightarrow> state \<Rightarrow> (exn + string) \<times> state" where
  "scan_content env response_content [] s =
     (let s1 = update_progress env ''Claude is formulating research strategy...''
                 ''info'' None None s
      in (Inr (extract_text_content response_content),
          append_message ''assistant'' (Blocks response_content) s1))"
| "scan_content env response_content (content_item # items) s =
     (case content_item of
        ToolUseBlock tool_use_id name input \<Rightarrow>
          if name = ''web_search''
          then handle_web_search env response_content tool_use_id input s
          else if name = ''get_article_content''
          then handle_get_article_content env response_content tool_use_id input s
          else scan_content env response_content items s
      | _ \<Rightarrow> scan_content env response_content items s)"

text \<open>
  The body of the \<^verbatim>\<open>try\<close> block of \<^verbatim>\<open>run_research_iteration\<close>, then the method with
  its handler (which also prints the traceback; the state does not record that).
\<close>

definition research_iteration_body :: "env \<Rightarrow> state \<Rightarrow> (exn + string) \<times> state" where
  "research_iteration_body env s =
     (let s1 = update_progress env ''Requesting Claude's analysis...'' ''info'' None None s;
          (r, s2) = call_claude env 4000 True s1
      in case r of
           Inl e \<Rightarrow> (Inl e, s2)
         | Inr response_content \<Rightarrow>
             let s3 = update_progress env ''Claude is analyzing the research topic...''
                        ''info'' None None s2
             in scan_content env response_content response_content s3)"

definition run_research_iteration :: "env \<Rightarrow> state \<Rightarrow> string \<times> state" where
  "run_research_iteration env s =
     (case research_iteration_body env s of
        (Inr analysis, s1) \<Rightarrow> (analysis, s1)
      | (Inl e, s1) \<Rightarrow>
          (''An error occurred: '' @ exc_str e,
           update_progress env (''Error during research iteration: '' @ exc_str e)
             ''error'' None None s1))"

section \<open>The research loop controller\<close>

definition sp :: "nat \<Rightarrow> string" where
  "sp n = replicate n CHR '' ''"

definition next_prompt :: "string \<Rightarrow> string" where
  "next_prompt user_query =
     NL
     @ sp 16 @ ''Based on what you've learned so far about '' @ user_query @ '', please:'' @ NL
     @ NL
     @ sp 16 @ ''1. Identify a key gap in our current understanding'' @ NL
     @ sp 16 @ ''2. Formulate a specific follow-up search query to address this gap or retrieve a full article if needed'' @ NL
     @ sp 19 @ ''(You can specify date ranges for your search if relevant)'' @ NL
     @ sp 16 @ ''3. Execute the search or content retrieval and analyze the results'' @ NL
     @ sp 16"

definition final_prompt :: "int \<Rightarrow> string \<Rightarrow> string" where
  "final_prompt max_iterations user_query =
     NL
     @ sp 8 @ ''We've completed '' @ show_int max_iterations
       @ '' iterations of research on '' @ DQ @ user_query @ DQ @ ''.'' @ NL
     @ NL
     @ sp 8 @ ''Please synthesize all the information you've gathered into a lengthy comprehensive research report (at least five pages).'' @ NL
     @ sp 8 @ ''This should not be a summary but rather a comprehensive literature review.'' @ NL
     @ NL
     @ sp 8 @ ''You must include proper citations to the sources you've used.'' @ NL
     @ NL
     @ sp 8 @ ''Your report should:'' @ NL
     @ sp 8 @ ''1. Have a clear introduction stating the research question'' @ NL
     @ sp 8 @ ''2. Organize findings into logical sections with headings'' @ NL
     @ sp 8 @ ''3. Provide detailed, lengthy descriptions about the current state of knowledge with numbers, evidence, and quotes from papers'' @ NL
     @ sp 8 @ ''4. Identify remaining questions or areas for future research'' @ NL
     @ sp 8 @ ''5. Conclude with key takeaways'' @ NL
     @ sp 8 @ ''6. Have a complete untruncated references list'' @ NL
     @ sp 8 @ ''7. Be in Markdown format with all sources linked using something like [source](link)'' @ NL
     @ sp 8"

text \<open>
  The timestamp rule of the loop: the first pass copies both histories; a later pass
  reads \<^verbatim>\<open>self.research_iterations[-1]\<close>, which raises on an empty list, and keeps the
  records stamped after it.
\<close>

definition attribute_records ::
  "nat \<Rightarrow> state \<Rightarrow> exn + (search_record list \<times> fetch_record list)" where
  "attribute_records i s =
     (if i = 0 then Inr (search_history s, content_retrieval_history s)
      else if research_iterations s = []
      then Inl (PyExc ''IndexError'' ''list index out of range'')
      else
        let last_iteration_time = it_timestamp (last (research_iterations s))
        in Inr (filter (\<lambda>r. sr_timestamp r > last_iteration_time) (search_history s),
                filter (\<lambda>c. fr_timestamp c > last_iteration_time)
                  (content_retrieval_history s)))"

text \<open>One pass of the \<^verbatim>\<open>for\<close> loop of \<^verbatim>\<open>run_research_loop\<close>, for the index \<open>i\<close>.\<close>

definition loop_body :: "env \<Rightarrow> string \<Rightarrow> int \<Rightarrow> nat \<Rightarrow> state \<Rightarrow> exn + state" where
  "loop_body env user_query max_iterations i s =
     (let s1 = update_progress env
                 (''Research iteration '' @ show_nat (i + 1) @ ''/'' @ show_int max_iterations)
                 ''iteration'' (Some (i + 1)) (Some max_iterations) s;
          (claude_response, s2) = run_research_iteration env s1;
          (current_time, s3) = read_clock env s2
      in case attribute_records i s3 of
           Inl e \<Rightarrow> Inl e
         | Inr (iteration_searches, iteration_content_retrievals) \<Rightarrow>
             let s4 = s3\<lparr>research_iterations := research_iterations s3 @
                          [\<lparr>it_iteration = i + 1, it_query = user_query,
                            it_response = claude_response,
                            it_search_queries = iteration_searches,
                            it_content_retrievals = iteration_content_retrievals,
                            it_timestamp = current_time\<rparr>]\<rparr>
             in Inr (if int i < max_iterations - 1
                     then append_message ''user'' (Text (next_prompt user_query)) s4
                     else s4))"

fun for_range :: "env \<Rightarrow> string \<Rightarrow> int \<Rightarrow> nat list \<Rightarrow> state \<Rightarrow> exn + state" where
  "for_range env user_query max_iterations [] s = Inr s"
| "for_range env user_query max_iterations (i # rest) s =
     (case loop_body env user_query max_iterations i s of
        Inl e \<Rightarrow> Inl e
      | Inr s1 \<Rightarrow> for_range env user_query max_iterations rest s1)"

text \<open>
  \<^verbatim>\<open>run_research_loop\<close> up to the end of its \<^verbatim>\<open>for\<close> loop over
  \<^verbatim>\<open>range(max_iterations)\<close>.
\<close>

definition run_iterations :: "env \<Rightarrow> string \<Rightarrow> int \<Rightarrow> state \<Rightarrow> exn + state" where
  "run_iterations env user_query max_iterations s =
     (let s1 = update_progress env (''Starting research on: '' @ SQ @ user_query @ SQ)
                 ''info'' None None s;
          s2 = update_progress env
                 (''Planning '' @ show_int max_iterations @ '' research iterations'')
                 ''info'' None None s1;
          s3 = initialize_conversation user_query s2
      in for_range env user_query max_iterations [0..<nat max_iterations] s3)"

text \<open>The final synthesis: the last prompt, the completion, and both ways out.\<close>

definition final_synthesis ::
  "env \<Rightarrow> string \<Rightarrow> int \<Rightarrow> state \<Rightarrow> (string \<times> research_data) \<times> state" where
  "final_synthesis env user_query max_iterations s =
     (let s1 = update_progress env ''Generating comprehensive research report...''
                 ''final_report'' None None s;
          s2 = append_message ''user'' (Text (final_prompt max_iterations user_query)) s1;
          (r, s3) = call_claude env 8192 False s2
      in case r of
           Inr final_report_content \<Rightarrow>
             let final_report = extract_text_content final_report_content;
                 (t, s4) = read_clock env s3;
                 research_data =
                   \<lparr>rd_query = user_query, rd_model = Some (model env),
                    rd_iterations = research_iterations s4,
                    rd_search_history = search_history s4,
                    rd_content_retrieval_history = content_retrieval_history s4,
                    rd_final_report = Some final_report, rd_error = None,
                    rd_timestamp = t\<rparr>;
                 s5 = update_progress env ''Research complete!'' ''info'' None None s4
             in ((final_report, research_data), s5)
         | Inl e \<Rightarrow>
             let s4 = update_progress env
                        (''Error generating final report: '' @ exc_str e)
                        ''error'' None None s3;
                 (t, s5) = read_clock env s4
             in ((''An error occurred while generating the final report: '' @ exc_str e,
                  \<lparr>rd_query = user_query, rd_model = None,
                   rd_iterations = research_iterations s5,
                   rd_search_history = search_history s5,
                   rd_content_retrieval_history = content_retrieval_history s5,
                   rd_final_report = None, rd_error = Some (exc_str e),
                   rd_timestamp = t\<rparr>),
                 s5))"

definition run_research_loop ::
  "env \<Rightarrow> string \<Rightarrow> int \<Rightarrow> state \<Rightarrow> exn + ((string \<times> research_data) \<times> state)" where
  "run_research_loop env user_query max_iterations s =
     (case run_iterations env user_query max_iterations s of
        Inl e \<Rightarrow> Inl e
      | Inr s1 \<Rightarrow> Inr (final_synthesis env user_query max_iterations s1))"

text \<open>The fields \<^verbatim>\<open>__init__\<close> sets on a new researcher.\<close>

definition init_state :: state where
  "init_state =
     \<lparr>messages = [], research_iterations = [], search_history = [],
      content_retrieval_history = [], progress_log = [], tick = 0\<rparr>"


section \<open>A sample environment\<close>

text \<open>
  A concrete set of collaborators on which the properties below are exercised. The model
  is overloaded on the synthesis call (the one that asks for 8192 tokens) and rate limited
  on the very first interaction; otherwise, offered the tools, it answers with a plan and
  three tool invocations, the first of which names a tool that is not in the manifest (the
  system prompt calls the second tool \<^verbatim>\<open>get_full_content\<close>). The search provider
  is down for the query \<^verbatim>\<open>fail\<close> and otherwise finds one entry without text and one
  complete entry. The scraper returns a document of 150000 characters for the url
  \<^verbatim>\<open>big\<close>. The clock advances by one at each interaction.
\<close>

definition sample_results :: pyval where
  "sample_results =
     PObj ''SearchResponse''
       [(''results'',
         PList [PObj ''Result'' [(''title'', PStr ''T''), (''url'', PStr ''u''), (''text'', PNone)],
                PDict [(''title'', PStr ''A''), (''text'', PStr ''body'')]])]"

definition sample_response :: "content_block list" where
  "sample_response =
     [TextBlock ''plan'',
      ToolUseBlock ''t1'' ''get_full_content'' [(''url'', PStr ''u'')],
      ToolUseBlock ''t2'' ''web_search'' [(''query'', PStr ''q1'')],
      ToolUseBlock ''t3'' ''get_article_content'' [(''url'', PStr ''big'')]]"

definition sample_env :: env where
  "sample_env =
     \<lparr>messages_create = (\<lambda>k rq.
        if rq_max_tokens rq = 8192 then Inl (PyExc ''APIError'' ''overloaded'')
        else if k = 0 then Inl (PyExc ''APIError'' ''rate limited'')
        else if rq_tools rq then Inr sample_response
        else Inr [TextBlock ''analysis'']),
      search_and_contents = (\<lambda>k p.
        if sp_query p = PStr ''fail'' then Inl (PyExc ''ConnectionError'' ''network down'')
        else Inr sample_results),
      scrape_url = (\<lambda>k u.
        if u = PStr ''big''
        then Inr (PObj ''ScrapeResponse'' [(''markdown'', PStr (replicate 150000 CHR ''a''))])
        else Inr (PDict [(''data'', PDict [(''markdown'', PStr ''doc'')])])),
      now = (\<lambda>k. k), model = ''m'', system_prompt = ''sys'', results_per_search = 5,
      progress_callback = True, py_repr = (\<lambda>v. ''<repr>'')\<rparr>"


section \<open>Predicates of the proofs\<close>

text \<open>
  \<open>stamps\<close>: the timestamps were read, in this order, at interactions numbered from
  \<open>lo\<close> up to but not including \<open>hi\<close>. \<open>advances\<close>: what a step of the driver may do to the
  histories, namely append records stamped during the step. \<open>loop_inv\<close>: the state
  between two passes of the loop, \<open>i\<close> passes done.
\<close>

definition stamps :: "env \<Rightarrow> nat \<Rightarrow> nat \<Rightarrow> timestamp list \<Rightarrow> bool" where
  "stamps env lo hi ts =
     (\<exists>ks. ts = map (now env) ks \<and> sorted_wrt (<) ks \<and> (\<forall>k\<in>set ks. lo \<le> k \<and> k < hi))"

definition advances :: "env \<Rightarrow> state \<Rightarrow> state \<Rightarrow> bool" where
  "advances env s s' =
     (tick s \<le> tick s' \<and> research_iterations s' = research_iterations s
      \<and> (\<exists>new. search_history s' = search_history s @ new
             \<and> stamps env (tick s) (tick s') (map sr_timestamp new))
      \<and> (\<exists>new. content_retrieval_history s' = content_retrieval_history s @ new
             \<and> stamps env (tick s) (tick s') (map fr_timestamp new)))"

definition loop_inv :: "env \<Rightarrow> nat \<Rightarrow> state \<Rightarrow> bool" where
  "loop_inv env i s =
     (((i = 0) = (research_iterations s = []))
      \<and> concat (map it_search_queries (research_iterations s)) = search_history s
      \<and> concat (map it_content_retrievals (research_iterations s)) = content_retrieval_history s
      \<and> sorted_wrt (<) (map sr_timestamp (search_history s))
      \<and> sorted_wrt (<) (map fr_timestamp (content_retrieval_history s))
      \<and> (\<forall>r\<in>set (search_history s). sr_timestamp r < now env (tick s))
      \<and> (\<forall>c\<in>set (content_retrieval_history s). fr_timestamp c < now env (tick s))
      \<and> (research_iterations s \<noteq> [] \<longrightarrow>
            (\<forall>r\<in>set (search_history s).
               sr_timestamp r < it_timestamp (last (research_iterations s)))
          \<and> (\<forall>c\<in>set (content_retrieval_history s).
               fr_timestamp c < it_timestamp (last (research_iterations s)))
          \<and> it_timestamp (last (research_iterations s)) < now env (tick s)))"

section \<open>Properties of the formatter\<close>

lemmas py_defs =
  py_hasattr_def py_getattr_def py_getattr_default_def is_dict_def dict_items_def
  dict_get_def dict_has_def py_truthy_def py_len_def py_slice_to_def py_add_str_def
  py_iter_def py_type_name_def py_str_def show_int_def show_nat.simps NL_def SQ_def DQ_def

lemma format_loop_append:
  "format_loop env idx rs acc =
     acc @ map (\<lambda>(k, r). case article_text env k r of Inr t \<Rightarrow> t | Inl e \<Rightarrow> error_block k)
             (zip [idx..<idx + length rs] rs)"
proof (induction rs arbitrary: idx acc)
  case Nil
  show ?case by simp
next
  case (Cons r rs)
  have "[idx..<idx + length (r # rs)] = idx # [Suc idx..<Suc idx + length rs]"
    by (simp add: upt_rec)
  then show ?case by (simp add: Cons.IH)
qed

text \<open>A rendered article continues with its title line, the placeholder does not.\<close>

lemma article_text_not_error_block:
  assumes "article_text env k r = Inr t"
  shows "t \<noteq> error_block k"
  using assms
  by (auto simp: article_text_def error_block_def Let_def split: option.splits sum.splits)

text \<open>
  Claim C6, as the code has it. For a null input \<^verbatim>\<open>format_search_results\<close> returns
  the text \<^verbatim>\<open>No search results found.\<close>, and for a result set whose list of entries is
  empty (attribute style or mapping style) it returns the text
  \<^verbatim>\<open>No results found for the given query.\<close>; in both cases it returns normally, the
  text is not empty, and the researcher's state is unchanged.
\<close>

theorem empty_result_messages:
  assumes "search_response = PNone \<or> get_results search_response = Some (PList [])"
  shows "\<exists>text. format_search_results env search_response s = (Inr text, s)
           \<and> text \<noteq> []
           \<and> text = (if search_response = PNone then ''No search results found.''
                     else ''No results found for the given query.'')"
  using assms
  by (auto simp: format_search_results_def py_iter_def)

theorem empty_result_messages_witness:
  "format_search_results sample_env (PDict [(''results'', PList [])]) init_state
     = (Inr ''No results found for the given query.'', init_state)"
  using empty_result_messages [of "PDict [(''results'', PList [])]" sample_env init_state]
  by (simp add: get_results_def py_hasattr_def py_getattr_def dict_has_def is_dict_def
      dict_items_def dict_get_def)

text \<open>
  Claim C6 as stated speaks of one fixed string for both inputs. The two inputs are
  answered with different texts.
\<close>

theorem no_single_fixed_string_counterexample:
  "fst (format_search_results sample_env PNone init_state)
     \<noteq> fst (format_search_results sample_env
            (PObj ''SearchResponse'' [(''results'', PList [])]) init_state)"
  by (simp add: format_search_results_def get_results_def py_hasattr_def py_getattr_def
      py_getattr_default_def py_iter_def)

text \<open>
  Claim C7. When the results of a response are a list in which the entry at position \<open>i\<close>
  raises during its formatting and the entry at position \<open>j\<close> renders to a text, the output
  is the join of one block per entry; the block at \<open>i\<close> is the placeholder of that
  position, the block at \<open>j\<close> is the full rendering of that entry (which is never a
  placeholder), and a block is the placeholder exactly when its own entry raised.
\<close>

theorem format_isolates_faulting_entry:
  assumes "get_results search_response = Some (PList results)"
    and "i < length results" and "article_text env i (results ! i) = Inl e"
    and "j < length results" and "article_text env j (results ! j) = Inr rendered"
  shows "\<exists>blocks. format_search_results env search_response s = (Inr (py_join NL blocks), s)
           \<and> length blocks = length results
           \<and> blocks ! i = error_block i
           \<and> blocks ! j = rendered \<and> rendered \<noteq> error_block j
           \<and> (\<forall>k<length results.
                 (blocks ! k = error_block k) = (\<exists>e. article_text env k (results ! k) = Inl e))"
proof -
  let ?block = "\<lambda>(k, r). case article_text env k r of Inr t \<Rightarrow> t | Inl e \<Rightarrow> error_block k"
  let ?blocks = "map ?block (zip [0..<length results] results)"
  have nonnull: "search_response \<noteq> PNone"
    using assms(1)
    by (auto simp: get_results_def py_hasattr_def py_getattr_def dict_has_def is_dict_def)
  have loop: "format_loop env 0 results [] = ?blocks"
    using format_loop_append [of env 0 results "[]"] by simp
  have len: "length ?blocks = length results" by simp
  have nth: "?blocks ! k
      = (case article_text env k (results ! k) of Inr t \<Rightarrow> t | Inl e \<Rightarrow> error_block k)"
    if "k < length results" for k
    using that by simp
  have nonempty: "?blocks \<noteq> []" using assms(2) by auto
  have run: "format_search_results env search_response s = (Inr (py_join NL ?blocks), s)"
    using nonnull nonempty assms(1) loop
    by (simp add: format_search_results_def py_iter_def)
  have bi: "?blocks ! i = error_block i" using nth [OF assms(2)] assms(3) by simp
  have bj: "?blocks ! j = rendered" using nth [OF assms(4)] assms(5) by simp
  have only: "(?blocks ! k = error_block k) = (\<exists>e. article_text env k (results ! k) = Inl e)"
    if "k < length results" for k
    using nth [OF that] article_text_not_error_block [of env k "results ! k"]
    by (cases "article_text env k (results ! k)") auto
  show ?thesis
    using run len bi bj only article_text_not_error_block [OF assms(5)] by blast
qed

theorem format_isolates_faulting_entry_witness:
  "\<exists>blocks. format_search_results sample_env sample_results init_state
               = (Inr (py_join NL blocks), init_state)
     \<and> length blocks = 2
     \<and> blocks ! 0 = ''--- Article 1 ---'' @ NL @ ''[Error formatting this result]'' @ NL @ NL
     \<and> blocks ! 1 = ''--- Article 2 ---'' @ NL @ ''Title: A'' @ NL @ ''URL: N/A'' @ NL
          @ ''Published: N/A'' @ NL @ ''Author: N/A'' @ NL
          @ ''Content excerpt:'' @ NL @ ''body'' @ NL @ NL"
proof -
  let ?bad = "PObj ''Result'' [(''title'', PStr ''T''), (''url'', PStr ''u''), (''text'', PNone)]"
  let ?good = "PDict [(''title'', PStr ''A''), (''text'', PStr ''body'')]"
  have r: "get_results sample_results = Some (PList [?bad, ?good])"
    by (simp add: get_results_def sample_results_def py_defs)
  have bad: "article_text sample_env 0 ([?bad, ?good] ! 0)
      = Inl (PyExc ''TypeError'' (''object of type '' @ SQ @ ''NoneType'' @ SQ @ '' has no len()''))"
    by (simp add: article_text_def excerpt_def article_header_def py_defs)
  have good: "article_text sample_env 1 ([?bad, ?good] ! 1)
      = Inr (''--- Article 2 ---'' @ NL @ ''Title: A'' @ NL @ ''URL: N/A'' @ NL
          @ ''Published: N/A'' @ NL @ ''Author: N/A'' @ NL
          @ ''Content excerpt:'' @ NL @ ''body'' @ NL @ NL)"
    by (simp add: article_text_def excerpt_def article_header_def py_defs)
  show ?thesis
    using format_isolates_faulting_entry [OF r _ bad _ good, of init_state]
    by (auto simp: error_block_def article_header_def show_nat.simps)
qed

section \<open>What a step does to the histories\<close>

lemma stamps_Nil [simp]: "stamps env lo hi []"
  by (simp add: stamps_def)

lemma stamps_single: "lo \<le> k \<Longrightarrow> k < hi \<Longrightarrow> stamps env lo hi [now env k]"
  unfolding stamps_def by (rule exI [of _ "[k]"]) simp

lemma stamps_pair:
  "lo \<le> k \<Longrightarrow> k < k' \<Longrightarrow> k' < hi \<Longrightarrow> stamps env lo hi [now env k, now env k']"
  unfolding stamps_def by (rule exI [of _ "[k, k']"]) simp

lemma stamps_append:
  assumes "stamps env lo mid ts" and "stamps env mid hi us" and "lo \<le> mid" and "mid \<le> hi"
  shows "stamps env lo hi (ts @ us)"
proof -
  from assms(1) obtain ks where ks: "ts = map (now env) ks" "sorted_wrt (<) ks"
    "\<forall>k\<in>set ks. lo \<le> k \<and> k < mid"
    unfolding stamps_def by blast
  from assms(2) obtain js where js: "us = map (now env) js" "sorted_wrt (<) js"
    "\<forall>k\<in>set js. mid \<le> k \<and> k < hi"
    unfolding stamps_def by blast
  have "sorted_wrt (<) (ks @ js)"
    using ks(2,3) js(2,3) by (fastforce simp: sorted_wrt_append)
  moreover have "\<forall>k\<in>set (ks @ js). lo \<le> k \<and> k < hi"
    using ks(3) js(3) assms(3,4) by fastforce
  moreover have "ts @ us = map (now env) (ks @ js)"
    using ks(1) js(1) by simp
  ultimately show ?thesis
    unfolding stamps_def by blast
qed

lemma advances_refl: "advances env s s"
  by (simp add: advances_def)

lemma advances_trans:
  assumes "advances env s s1" and "advances env s1 s2"
  shows "advances env s s2"
proof -
  from assms(1) obtain n1 m1 where
    a: "tick s \<le> tick s1" "research_iterations s1 = research_iterations s"
       "search_history s1 = search_history s @ n1"
       "stamps env (tick s) (tick s1) (map sr_timestamp n1)"
       "content_retrieval_history s1 = content_retrieval_history s @ m1"
       "stamps env (tick s) (tick s1) (map fr_timestamp m1)"
    unfolding advances_def by blast
  from assms(2) obtain n2 m2 where
    b: "tick s1 \<le> tick s2" "research_iterations s2 = research_iterations s1"
       "search_history s2 = search_history s1 @ n2"
       "stamps env (tick s1) (tick s2) (map sr_timestamp n2)"
       "content_retrieval_history s2 = content_retrieval_history s1 @ m2"
       "stamps env (tick s1) (tick s2) (map fr_timestamp m2)"
    unfolding advances_def by blast
  have "stamps env (tick s) (tick s2) (map sr_timestamp (n1 @ n2))"
    using stamps_append [OF a(4) b(4) a(1) b(1)] by simp
  moreover have "stamps env (tick s) (tick s2) (map fr_timestamp (m1 @ m2))"
    using stamps_append [OF a(6) b(6) a(1) b(1)] by simp
  moreover have "search_history s2 = search_history s @ (n1 @ n2)"
    using a(3) b(3) by simp
  moreover have "content_retrieval_history s2 = content_retrieval_history s @ (m1 @ m2)"
    using a(5) b(5) by simp
  moreover have "tick s \<le> tick s2" using a(1) b(1) by simp
  moreover have "research_iterations s2 = research_iterations s" using a(2) b(2) by simp
  ultimately show ?thesis
    unfolding advances_def by blast
qed

lemma update_progress_fields [simp]:
  "tick (update_progress env m t a b s) = tick s"
  "messages (update_progress env m t a b s) = messages s"
  "research_iterations (update_progress env m t a b s) = research_iterations s"
  "search_history (update_progress env m t a b s) = search_history s"
  "content_retrieval_history (update_progress env m t a b s) = content_retrieval_history s"
  by (simp_all add: update_progress_def)

lemma append_message_fields [simp]:
  "tick (append_message r c s) = tick s"
  "messages (append_message r c s) = messages s @ [\<lparr>role = r, content = c\<rparr>]"
  "research_iterations (append_message r c s) = research_iterations s"
  "search_history (append_message r c s) = search_history s"
  "content_retrieval_history (append_message r c s) = content_retrieval_history s"
  "progress_log (append_message r c s) = progress_log s"
  by (simp_all add: append_message_def)

lemma advances_update_progress: "advances env s (update_progress env m t a b s)"
  by (simp add: advances_def)

lemma advances_append_message: "advances env s (append_message r c s)"
  by (simp add: advances_def)

lemma advances_search_failed: "advances env s (snd (search_failed env q a b e s))"
  by (auto simp: advances_def search_failed_def read_clock_def Let_def intro!: stamps_single stamps_pair)

lemma advances_search_with_exa: "advances env s (snd (search_with_exa env q n a b s))"
  by (auto simp: advances_def search_with_exa_def search_failed_def read_clock_def
      Let_def split: sum.splits intro!: stamps_single stamps_pair)

lemma advances_fetch_failed: "advances env s (snd (fetch_failed env u e s))"
  by (auto simp: advances_def fetch_failed_def read_clock_def Let_def intro!: stamps_single stamps_pair)

lemma advances_get_full_content: "advances env s (snd (get_full_content env u s))"
  by (auto simp: advances_def get_full_content_def fetch_failed_def read_clock_def
      Let_def split: sum.splits intro!: stamps_single stamps_pair)

lemma advances_format: "advances env s (snd (format_search_results env r s))"
  by (auto simp: advances_def format_search_results_def Let_def split: sum.splits option.splits)

lemma advances_call_claude: "advances env s (snd (call_claude env n t s))"
  by (simp add: advances_def call_claude_def)

lemmas advances_then =
  advances_trans [OF _ advances_update_progress]
  advances_trans [OF _ advances_append_message]
  advances_trans [OF _ advances_search_with_exa]
  advances_trans [OF _ advances_get_full_content]
  advances_trans [OF _ advances_format]
  advances_trans [OF _ advances_call_claude]

lemma advances_request_analysis: "advances env s (snd (request_analysis env m s))"
  by (auto simp: request_analysis_def Let_def case_prod_beta split: sum.splits split del: if_split
      intro!: advances_then advances_refl)

lemma advances_handle_web_search:
  "advances env s (snd (handle_web_search env rc i inp s))"
  by (auto simp: handle_web_search_def Let_def case_prod_beta split: sum.splits split del: if_split
      intro!: advances_then advances_trans [OF _ advances_request_analysis] advances_refl)

lemma advances_handle_get_article_content:
  "advances env s (snd (handle_get_article_content env rc i inp s))"
  by (auto simp: handle_get_article_content_def Let_def case_prod_beta split: sum.splits split del: if_split
      intro!: advances_then advances_trans [OF _ advances_request_analysis] advances_refl)

lemma advances_scan_content: "advances env s (snd (scan_content env rc items s))"
proof (induction items)
  case Nil
  show ?case by (auto simp: Let_def intro!: advances_then advances_refl)
next
  case (Cons item items)
  show ?case
    by (cases item)
      (simp_all add: Cons.IH advances_handle_web_search advances_handle_get_article_content)
qed

lemma advances_research_iteration_body:
  "advances env s (snd (research_iteration_body env s))"
  by (auto simp: research_iteration_body_def Let_def case_prod_beta split: sum.splits split del: if_split
      intro!: advances_then advances_trans [OF _ advances_scan_content] advances_refl)

lemma advances_run_research_iteration:
  "advances env s (snd (run_research_iteration env s))"
  using advances_research_iteration_body [of env s]
  by (auto simp: run_research_iteration_def split: prod.splits sum.splits split del: if_split
      intro: advances_then)

section \<open>Properties of the adapters\<close>

text \<open>
  Claim C2. Whatever the query, when the provider's \<^verbatim>\<open>search_and_contents\<close> raises
  \<open>e\<close>, \<^verbatim>\<open>search_with_exa\<close> returns \<open>None\<close> instead of raising, and has appended to the
  search history exactly one record, with the query, no results and the text of \<open>e\<close> as
  its error; nothing else of the histories or of the conversation changes.
\<close>

theorem search_fault_is_recorded:
  assumes "search_and_contents env (tick s)
             (build_search_params query
                (case num_results of None \<Rightarrow> results_per_search env | Some k \<Rightarrow> k)
                start_date end_date) = Inl e"
  shows "\<exists>s'. search_with_exa env query num_results start_date end_date s = (PNone, s')
           \<and> search_history s' = search_history s @
                [\<lparr>sr_query = query, sr_timestamp = now env (Suc (tick s)), sr_num_results = 0,
                  sr_start_date = start_date, sr_end_date = end_date,
                  sr_error = Some (exc_str e)\<rparr>]
           \<and> content_retrieval_history s' = content_retrieval_history s
           \<and> research_iterations s' = research_iterations s
           \<and> messages s' = messages s"
  using assms
  by (simp add: search_with_exa_def search_failed_def read_clock_def update_progress_def Let_def)

text \<open>
  The sample provider is down for the query \<^verbatim>\<open>fail\<close>.
\<close>

theorem search_fault_is_recorded_witness:
  "search_with_exa sample_env (PStr ''fail'') None PNone PNone init_state
     = (PNone,
        init_state\<lparr>search_history :=
            [\<lparr>sr_query = PStr ''fail'', sr_timestamp = 1, sr_num_results = 0,
              sr_start_date = PNone, sr_end_date = PNone, sr_error = Some ''network down''\<rparr>],
          progress_log :=
            [\<lparr>pe_message = ''Searching for: fail'', pe_type = ''search'',
              pe_iteration_num = None, pe_total_iterations = None\<rparr>,
             \<lparr>pe_message = ''Search error: network down'', pe_type = ''error'',
              pe_iteration_num = None, pe_total_iterations = None\<rparr>],
          tick := 2\<rparr>)"
proof -
  have h: "search_and_contents sample_env (tick init_state)
             (build_search_params (PStr ''fail'')
                (case None of None \<Rightarrow> results_per_search sample_env | Some k \<Rightarrow> k)
                PNone PNone) = Inl (PyExc ''ConnectionError'' ''network down'')"
    by (simp add: sample_env_def build_search_params_def)
  show ?thesis
    using search_fault_is_recorded [OF h]
    by (simp add: search_with_exa_def search_failed_def read_clock_def update_progress_def
        Let_def sample_env_def build_search_params_def init_state_def py_defs)
qed

text \<open>
  Claim C8. When the scraper answers and a text is recovered from its response,
  \<^verbatim>\<open>get_full_content\<close> returns that text cut to its first 100000 characters, so at most
  100000 characters, and exactly 100000 for a text of 150000 characters.
\<close>

theorem fetch_returns_truncated_text:
  assumes "scrape_url env (tick s) url = Inr response"
    and "recover_content response = PStr text"
  shows "\<exists>returned. fst (get_full_content env url s) = PStr returned
           \<and> returned = take 100000 text
           \<and> length returned \<le> 100000
           \<and> (length text = 150000 \<longrightarrow> length returned = 100000)"
  using assms
  by (simp add: get_full_content_def read_clock_def py_len_def py_slice_to_def Let_def)

text \<open>
  The sample scraper returns 150000 characters for the url \<^verbatim>\<open>big\<close>.
\<close>

theorem fetch_returns_truncated_text_witness:
  "fst (get_full_content sample_env (PStr ''big'') init_state) = PStr (replicate 100000 CHR ''a'')"
proof -
  have h1: "scrape_url sample_env (tick init_state) (PStr ''big'')
      = Inr (PObj ''ScrapeResponse'' [(''markdown'', PStr (replicate 150000 CHR ''a''))])"
    by (simp add: sample_env_def)
  have h2: "recover_content (PObj ''ScrapeResponse'' [(''markdown'', PStr (replicate 150000 CHR ''a''))])
      = PStr (replicate 150000 CHR ''a'')"
    by (simp add: recover_content_def py_hasattr_def py_getattr_def py_getattr_default_def)
  show ?thesis
    using fetch_returns_truncated_text [OF h1 h2] by auto
qed

text \<open>
  Claim C10. When the recovered text is longer than 100000 characters, the record appended
  to the content retrieval history is a success with the length of the whole text, while
  the returned text has 100000 characters: the recorded and the returned lengths differ.
\<close>

theorem fetch_record_keeps_full_length:
  assumes "scrape_url env (tick s) url = Inr response"
    and "recover_content response = PStr text"
    and "100000 < length text"
  shows "\<exists>returned s'. get_full_content env url s = (PStr returned, s')
           \<and> content_retrieval_history s' = content_retrieval_history s @
                [\<lparr>fr_url = url, fr_timestamp = now env (Suc (tick s)), fr_success = True,
                  fr_content_length = Some (length text), fr_error = None\<rparr>]
           \<and> returned = take 100000 text \<and> length returned = 100000
           \<and> fr_content_length (last (content_retrieval_history s')) \<noteq> Some (length returned)"
proof -
  have "text \<noteq> ''Error retrieving content''"
    using assms(3) by auto
  then show ?thesis
    using assms
    by (simp add: get_full_content_def read_clock_def py_len_def py_slice_to_def Let_def
        update_progress_def)
qed

text \<open>
  On the sample document the record says 150000 and the caller receives 100000 characters.
\<close>

theorem fetch_record_keeps_full_length_witness:
  "\<exists>s'. get_full_content sample_env (PStr ''big'') init_state
           = (PStr (replicate 100000 CHR ''a''), s')
     \<and> content_retrieval_history s' =
          [\<lparr>fr_url = PStr ''big'', fr_timestamp = 1, fr_success = True,
            fr_content_length = Some 150000, fr_error = None\<rparr>]"
proof -
  have h1: "scrape_url sample_env (tick init_state) (PStr ''big'')
      = Inr (PObj ''ScrapeResponse'' [(''markdown'', PStr (replicate 150000 CHR ''a''))])"
    by (simp add: sample_env_def)
  have h2: "recover_content (PObj ''ScrapeResponse'' [(''markdown'', PStr (replicate 150000 CHR ''a''))])
      = PStr (replicate 150000 CHR ''a'')"
    by (simp add: recover_content_def py_hasattr_def py_getattr_def py_getattr_default_def)
  have h3: "100000 < length (replicate 150000 CHR ''a'')" by simp
  show ?thesis
    using fetch_record_keeps_full_length [OF h1 h2 h3]
    by (auto simp: init_state_def sample_env_def)
qed

section \<open>Properties of the loop\<close>

lemma run_research_iteration_keeps_iterations:
  "research_iterations (snd (run_research_iteration env s)) = research_iterations s"
  using advances_run_research_iteration [of env s] by (simp add: advances_def)

lemma loop_body_result:
  assumes ok: "i = 0 \<or> research_iterations s \<noteq> []"
    and run: "run_research_iteration env
                (update_progress env
                   (''Research iteration '' @ show_nat (i + 1) @ ''/'' @ show_int m)
                   ''iteration'' (Some (i + 1)) (Some m) s) = (resp, s2)"
  shows "\<exists>s'. loop_body env q m i s = Inr s'
           \<and> research_iterations s' = research_iterations s @
               [\<lparr>it_iteration = i + 1, it_query = q, it_response = resp,
                 it_search_queries =
                   (if i = 0 then search_history s2
                    else filter (\<lambda>r. it_timestamp (last (research_iterations s)) < sr_timestamp r)
                           (search_history s2)),
                 it_content_retrievals =
                   (if i = 0 then content_retrieval_history s2
                    else filter (\<lambda>c. it_timestamp (last (research_iterations s)) < fr_timestamp c)
                           (content_retrieval_history s2)),
                 it_timestamp = now env (tick s2)\<rparr>]
           \<and> search_history s' = search_history s2
           \<and> content_retrieval_history s' = content_retrieval_history s2
           \<and> tick s' = Suc (tick s2)"
proof -
  have keep: "research_iterations s2 = research_iterations s"
    using run_research_iteration_keeps_iterations
      [of env "update_progress env
                   (''Research iteration '' @ show_nat (i + 1) @ ''/'' @ show_int m)
                   ''iteration'' (Some (i + 1)) (Some m) s"] run
    by simp
  show ?thesis
    using ok keep run
    by (auto simp: loop_body_def attribute_records_def read_clock_def Let_def)
qed

lemma for_range_appends:
  assumes "i = 0 \<or> research_iterations s \<noteq> []"
  shows "\<exists>s'. for_range env q m [i..<i + k] s = Inr s'
           \<and> map it_iteration (research_iterations s')
               = map it_iteration (research_iterations s) @ [Suc i..<Suc (i + k)]"
  using assms
proof (induction k arbitrary: i s)
  case 0
  show ?case by simp
next
  case (Suc k)
  obtain resp s2 where run: "run_research_iteration env
                (update_progress env
                   (''Research iteration '' @ show_nat (i + 1) @ ''/'' @ show_int m)
                   ''iteration'' (Some (i + 1)) (Some m) s) = (resp, s2)"
    by (cases "run_research_iteration env
                (update_progress env
                   (''Research iteration '' @ show_nat (i + 1) @ ''/'' @ show_int m)
                   ''iteration'' (Some (i + 1)) (Some m) s)") auto
  from loop_body_result [OF Suc.prems run, of q]
  obtain s1 where body: "loop_body env q m i s = Inr s1"
    and its: "map it_iteration (research_iterations s1)
                = map it_iteration (research_iterations s) @ [Suc i]"
    by auto
  have ne: "Suc i = 0 \<or> research_iterations s1 \<noteq> []"
    using its by auto
  from Suc.IH [OF ne] obtain s' where
    rest: "for_range env q m [Suc i..<Suc i + k] s1 = Inr s'"
    and its': "map it_iteration (research_iterations s')
                = map it_iteration (research_iterations s1) @ [Suc (Suc i)..<Suc (Suc i + k)]"
    by blast
  have split: "[i..<i + Suc k] = i # [Suc i..<Suc i + k]"
    using upt_conv_Cons [of i "i + Suc k"] by simp
  have idx: "[Suc i..<Suc (i + Suc k)] = Suc i # [Suc (Suc i)..<Suc (Suc i + k)]"
    using upt_conv_Cons [of "Suc i" "Suc (i + Suc k)"] by simp
  have "for_range env q m [i..<i + Suc k] s = Inr s'"
    by (simp only: split for_range.simps body sum.case rest)
  moreover have "map it_iteration (research_iterations s')
      = map it_iteration (research_iterations s) @ [Suc i..<Suc (i + Suc k)]"
    by (simp only: idx its' its append_assoc append_Cons append_Nil)
  ultimately show ?case by blast
qed

lemma initialize_conversation_fields [simp]:
  "tick (initialize_conversation q s) = tick s"
  "research_iterations (initialize_conversation q s) = research_iterations s"
  "search_history (initialize_conversation q s) = search_history s"
  "content_retrieval_history (initialize_conversation q s) = content_retrieval_history s"
  by (simp_all add: initialize_conversation_def)

lemma run_iterations_appends:
  "\<exists>s'. run_iterations env q m s = Inr s'
     \<and> map it_iteration (research_iterations s')
         = map it_iteration (research_iterations s) @ [1..<Suc (nat m)]"
proof -
  let ?s3 = "initialize_conversation q
      (update_progress env (''Planning '' @ show_int m @ '' research iterations'')
         ''info'' None None
         (update_progress env (''Starting research on: '' @ SQ @ q @ SQ) ''info'' None None s))"
  have "0 = (0::nat) \<or> research_iterations ?s3 \<noteq> []" by simp
  from for_range_appends [OF this, of env q m "nat m"]
  obtain s' where "for_range env q m [0..<nat m] ?s3 = Inr s'"
    and "map it_iteration (research_iterations s')
           = map it_iteration (research_iterations ?s3) @ [Suc 0..<Suc (nat m)]"
    by (auto simp del: upt_Suc)
  then show ?thesis
    by (simp add: run_iterations_def Let_def del: upt_Suc)
qed

lemma final_synthesis_fault:
  assumes "messages_create env (tick s1)
             (claude_request env 8192 False
                (append_message ''user'' (Text (final_prompt m q)) s1)) = Inl e"
  shows "\<exists>s'. final_synthesis env q m s1 =
           ((''An error occurred while generating the final report: '' @ exc_str e,
             \<lparr>rd_query = q, rd_model = None,
              rd_iterations = research_iterations s1,
              rd_search_history = search_history s1,
              rd_content_retrieval_history = content_retrieval_history s1,
              rd_final_report = None, rd_error = Some (exc_str e),
              rd_timestamp = now env (Suc (tick s1))\<rparr>), s')
         \<and> research_iterations s' = research_iterations s1
         \<and> search_history s' = search_history s1
         \<and> content_retrieval_history s' = content_retrieval_history s1"
proof -
  have req: "claude_request env 8192 False
               (append_message ''user'' (Text (final_prompt m q))
                  (update_progress env ''Generating comprehensive research report...''
                     ''final_report'' None None s1))
           = claude_request env 8192 False
               (append_message ''user'' (Text (final_prompt m q)) s1)"
    by (simp add: claude_request_def)
  show ?thesis
    using assms
    by (simp add: final_synthesis_def call_claude_def read_clock_def Let_def req)
qed

text \<open>
  Claim C1. The loop of \<^verbatim>\<open>run_research_loop\<close> always ends normally, in some state
  \<open>s1\<close>; and if the completion requested after the final prompt then raises \<open>e\<close>,
  \<^verbatim>\<open>run_research_loop\<close> returns (it does not raise) the error report naming \<open>e\<close> and a
  session that carries the text of \<open>e\<close> as its error and the iteration records, the search
  history and the content retrieval history exactly as they were in \<open>s1\<close>.
\<close>

theorem synthesis_failure_returns_partial_session:
  "\<exists>s1. run_iterations env user_query max_iterations s = Inr s1
     \<and> (\<forall>e. messages_create env (tick s1)
               (claude_request env 8192 False
                  (append_message ''user'' (Text (final_prompt max_iterations user_query)) s1))
             = Inl e
           \<longrightarrow> (\<exists>s'. run_research_loop env user_query max_iterations s =
                  Inr ((''An error occurred while generating the final report: '' @ exc_str e,
                        \<lparr>rd_query = user_query, rd_model = None,
                         rd_iterations = research_iterations s1,
                         rd_search_history = search_history s1,
                         rd_content_retrieval_history = content_retrieval_history s1,
                         rd_final_report = None, rd_error = Some (exc_str e),
                         rd_timestamp = now env (Suc (tick s1))\<rparr>), s')
                \<and> research_iterations s' = research_iterations s1
                \<and> search_history s' = search_history s1
                \<and> content_retrieval_history s' = content_retrieval_history s1))"
proof -
  obtain s1 where loop: "run_iterations env user_query max_iterations s = Inr s1"
    using run_iterations_appends [of env user_query max_iterations s] by blast
  show ?thesis
    using loop final_synthesis_fault [of env s1 max_iterations user_query]
    by (auto simp: run_research_loop_def)
qed

text \<open>
  Claim C5. For every value of \<^verbatim>\<open>max_iterations\<close> the loop ends normally, in the state
  in which the final synthesis then starts, and has appended one iteration record for each
  index of \<^verbatim>\<open>range(max_iterations)\<close>, numbered 1, 2, ... in this order.
\<close>

theorem loop_appends_one_record_per_iteration:
  "\<exists>s1. run_iterations env user_query max_iterations s = Inr s1
     \<and> map it_iteration (research_iterations s1)
         = map it_iteration (research_iterations s) @ [1..<Suc (nat max_iterations)]
     \<and> length (research_iterations s1) = length (research_iterations s) + nat max_iterations
     \<and> run_research_loop env user_query max_iterations s
         = Inr (final_synthesis env user_query max_iterations s1)"
proof -
  obtain s1 where loop: "run_iterations env user_query max_iterations s = Inr s1"
    and idx: "map it_iteration (research_iterations s1)
         = map it_iteration (research_iterations s) @ [1..<Suc (nat max_iterations)]"
    using run_iterations_appends [of env user_query max_iterations s] by blast
  have "length (map it_iteration (research_iterations s1))
      = length (map it_iteration (research_iterations s) @ [1..<Suc (nat max_iterations)])"
    using idx by simp
  then have "length (research_iterations s1)
      = length (research_iterations s) + nat max_iterations"
    by (simp del: upt_Suc)
  then show ?thesis
    using loop idx by (simp add: run_research_loop_def del: upt_Suc)
qed

lemmas run_defs =
  run_research_loop_def run_iterations_def final_synthesis_def loop_body_def
  attribute_records_def run_research_iteration_def research_iteration_body_def
  handle_web_search_def handle_get_article_content_def request_analysis_def
  call_claude_def claude_request_def append_message_def initialize_conversation_def
  extract_text_content_def search_with_exa_def search_failed_def build_search_params_def
  count_results_def summary_count_def get_full_content_def fetch_failed_def recover_content_def
  format_search_results_def get_results_def article_text_def article_header_def
  error_block_def excerpt_def update_progress_def read_clock_def init_state_def
  sample_env_def sample_response_def sample_results_def

lemma sample_loop:
  "map_sum id (\<lambda>s. (research_iterations s, search_history s, content_retrieval_history s, tick s))
     (run_iterations sample_env ''q'' 3 init_state) =
   Inr ([\<lparr>it_iteration = 1, it_query = ''q'',
           it_response = ''An error occurred: rate limited'',
           it_search_queries = [], it_content_retrievals = [],
           it_timestamp = 1\<rparr>,
        \<lparr>it_iteration = 2, it_query = ''q'', it_response = ''analysis'',
           it_search_queries =
             [\<lparr>sr_query = PStr ''q1'', sr_timestamp = 4, sr_num_results = 2,
                 sr_start_date = PNone, sr_end_date = PNone,
                 sr_error = None\<rparr>],
           it_content_retrievals = [], it_timestamp = 6\<rparr>,
        \<lparr>it_iteration = 3, it_query = ''q'', it_response = ''analysis'',
           it_search_queries =
             [\<lparr>sr_query = PStr ''q1'', sr_timestamp = 9, sr_num_results = 2,
                 sr_start_date = PNone, sr_end_date = PNone,
                 sr_error = None\<rparr>],
           it_content_retrievals = [], it_timestamp = 11\<rparr>],
       [\<lparr>sr_query = PStr ''q1'', sr_timestamp = 4, sr_num_results = 2,
           sr_start_date = PNone, sr_end_date = PNone, sr_error = None\<rparr>,
        \<lparr>sr_query = PStr ''q1'', sr_timestamp = 9, sr_num_results = 2,
           sr_start_date = PNone, sr_end_date = PNone, sr_error = None\<rparr>],
       [], 12)"
  by (simp add: run_defs py_defs Let_def upt_conv_Cons)

text \<open>
  The sample model fails on the synthesis call only after three iterations have been
  recorded.
\<close>

theorem synthesis_failure_returns_partial_session_witness:
  "\<exists>s'. run_research_loop sample_env ''q'' 3 init_state =
     Inr ((''An error occurred while generating the final report: overloaded'',
           \<lparr>rd_query = ''q'', rd_model = None,
            rd_iterations =
              [\<lparr>it_iteration = 1, it_query = ''q'',
                 it_response = ''An error occurred: rate limited'',
                 it_search_queries = [], it_content_retrievals = [], it_timestamp = 1\<rparr>,
               \<lparr>it_iteration = 2, it_query = ''q'', it_response = ''analysis'',
                 it_search_queries =
                   [\<lparr>sr_query = PStr ''q1'', sr_timestamp = 4, sr_num_results = 2,
                     sr_start_date = PNone, sr_end_date = PNone, sr_error = None\<rparr>],
                 it_content_retrievals = [], it_timestamp = 6\<rparr>,
               \<lparr>it_iteration = 3, it_query = ''q'', it_response = ''analysis'',
                 it_search_queries =
                   [\<lparr>sr_query = PStr ''q1'', sr_timestamp = 9, sr_num_results = 2,
                     sr_start_date = PNone, sr_end_date = PNone, sr_error = None\<rparr>],
                 it_content_retrievals = [], it_timestamp = 11\<rparr>],
            rd_search_history =
              [\<lparr>sr_query = PStr ''q1'', sr_timestamp = 4, sr_num_results = 2,
                 sr_start_date = PNone, sr_end_date = PNone, sr_error = None\<rparr>,
               \<lparr>sr_query = PStr ''q1'', sr_timestamp = 9, sr_num_results = 2,
                 sr_start_date = PNone, sr_end_date = PNone, sr_error = None\<rparr>],
            rd_content_retrieval_history = [], rd_final_report = None,
            rd_error = Some ''overloaded'', rd_timestamp = 13\<rparr>), s')"
proof -
  from synthesis_failure_returns_partial_session [of sample_env "''q''" 3 init_state]
  obtain s1 where loop: "run_iterations sample_env ''q'' 3 init_state = Inr s1"
    and fault: "\<And>e. messages_create sample_env (tick s1)
               (claude_request sample_env 8192 False
                  (append_message ''user'' (Text (final_prompt 3 ''q'')) s1)) = Inl e
           \<Longrightarrow> \<exists>s'. run_research_loop sample_env ''q'' 3 init_state =
                  Inr ((''An error occurred while generating the final report: '' @ exc_str e,
                        \<lparr>rd_query = ''q'', rd_model = None,
                         rd_iterations = research_iterations s1,
                         rd_search_history = search_history s1,
                         rd_content_retrieval_history = content_retrieval_history s1,
                         rd_final_report = None, rd_error = Some (exc_str e),
                         rd_timestamp = now sample_env (Suc (tick s1))\<rparr>), s')"
    by blast
  have raised: "messages_create sample_env (tick s1)
               (claude_request sample_env 8192 False
                  (append_message ''user'' (Text (final_prompt 3 ''q'')) s1))
             = Inl (PyExc ''APIError'' ''overloaded'')"
    by (simp add: sample_env_def claude_request_def)
  show ?thesis
    using fault [OF raised] sample_loop loop
    by (auto simp: sample_env_def)
qed

text \<open>
  Three iterations on the sample environment leave the records numbered 1, 2, 3.
\<close>

theorem loop_appends_one_record_per_iteration_witness:
  "\<exists>s1. run_iterations sample_env ''q'' 3 init_state = Inr s1
     \<and> map it_iteration (research_iterations s1) = [1, 2, 3]
     \<and> length (research_iterations s1) = 3"
  using loop_appends_one_record_per_iteration [of sample_env "''q''" 3 init_state]
  by (auto simp: init_state_def upt_conv_Cons)

section \<open>Attribution of the records to the iterations\<close>

lemma stamps_bounds:
  assumes "strict_mono (now env)" and "stamps env lo hi ts" and "lo \<le> hi"
  shows "sorted_wrt (<) ts \<and> (\<forall>t\<in>set ts. now env lo \<le> t \<and> t < now env hi)"
proof -
  from assms(2) obtain ks where ks: "ts = map (now env) ks" "sorted_wrt (<) ks"
    "\<forall>k\<in>set ks. lo \<le> k \<and> k < hi"
    unfolding stamps_def by blast
  have "sorted_wrt (<) (map (now env) ks)"
    using ks(2) assms(1) by (simp add: sorted_wrt_map strict_mono_less)
  moreover have "\<forall>t\<in>set (map (now env) ks). now env lo \<le> t \<and> t < now env hi"
    using ks(3) assms(1) by (auto simp: strict_mono_less strict_mono_less_eq)
  ultimately show ?thesis using ks(1) by simp
qed

text \<open>What one pass adds to a history is exactly what the timestamp rule selects.\<close>

lemma slice_is_new:
  fixes stamp :: "'a \<Rightarrow> nat"
  assumes old: "\<forall>r\<in>set hist. stamp r < T"
    and new: "\<forall>r\<in>set new. T < stamp r"
  shows "filter (\<lambda>r. T < stamp r) (hist @ new) = new"
proof -
  have "filter (\<lambda>r. T < stamp r) hist = []"
    using old by (auto simp: filter_empty_conv)
  moreover have "filter (\<lambda>r. T < stamp r) new = new"
    using new by (simp add: filter_id_conv)
  ultimately show ?thesis by simp
qed

lemma sorted_extend:
  fixes stamp :: "'a \<Rightarrow> nat"
  assumes "sorted_wrt (<) (map stamp hist)" and "sorted_wrt (<) (map stamp new)"
    and "\<forall>r\<in>set hist. stamp r < B" and "\<forall>r\<in>set new. B \<le> stamp r"
  shows "sorted_wrt (<) (map stamp (hist @ new))"
  using assms by (fastforce simp: sorted_wrt_append)

lemma loop_body_keeps_inv:
  assumes mono: "strict_mono (now env)"
    and inv: "loop_inv env i s"
  shows "\<exists>s'. loop_body env q m i s = Inr s' \<and> loop_inv env (Suc i) s'"
proof -
  let ?s1 = "update_progress env
               (''Research iteration '' @ show_nat (i + 1) @ ''/'' @ show_int m)
               ''iteration'' (Some (i + 1)) (Some m) s"
  obtain resp s2 where run: "run_research_iteration env ?s1 = (resp, s2)"
    by (cases "run_research_iteration env ?s1") auto
  have adv: "advances env s s2"
    using advances_trans [OF advances_update_progress advances_run_research_iteration,
        of env s _ _ _ _] run
    by (metis snd_conv)
  then obtain news newc where
    tk: "tick s \<le> tick s2" and its2: "research_iterations s2 = research_iterations s"
    and sh2: "search_history s2 = search_history s @ news"
    and st_s: "stamps env (tick s) (tick s2) (map sr_timestamp news)"
    and ch2: "content_retrieval_history s2 = content_retrieval_history s @ newc"
    and st_c: "stamps env (tick s) (tick s2) (map fr_timestamp newc)"
    unfolding advances_def by blast
  from stamps_bounds [OF mono st_s tk] have
    news_sorted: "sorted_wrt (<) (map sr_timestamp news)"
    and news_lo: "\<forall>r\<in>set news. now env (tick s) \<le> sr_timestamp r"
    and news_hi: "\<forall>r\<in>set news. sr_timestamp r < now env (tick s2)"
    by auto
  from stamps_bounds [OF mono st_c tk] have
    newc_sorted: "sorted_wrt (<) (map fr_timestamp newc)"
    and newc_lo: "\<forall>c\<in>set newc. now env (tick s) \<le> fr_timestamp c"
    and newc_hi: "\<forall>c\<in>set newc. fr_timestamp c < now env (tick s2)"
    by auto
  from inv have
    i0: "(i = 0) = (research_iterations s = [])"
    and cs: "concat (map it_search_queries (research_iterations s)) = search_history s"
    and cc: "concat (map it_content_retrievals (research_iterations s))
               = content_retrieval_history s"
    and so_s: "sorted_wrt (<) (map sr_timestamp (search_history s))"
    and so_c: "sorted_wrt (<) (map fr_timestamp (content_retrieval_history s))"
    and old_s: "\<forall>r\<in>set (search_history s). sr_timestamp r < now env (tick s)"
    and old_c: "\<forall>c\<in>set (content_retrieval_history s). fr_timestamp c < now env (tick s)"
    and lastT: "research_iterations s \<noteq> [] \<Longrightarrow>
            (\<forall>r\<in>set (search_history s).
               sr_timestamp r < it_timestamp (last (research_iterations s)))
          \<and> (\<forall>c\<in>set (content_retrieval_history s).
               fr_timestamp c < it_timestamp (last (research_iterations s)))
          \<and> it_timestamp (last (research_iterations s)) < now env (tick s)"
    unfolding loop_inv_def by auto
  have ok: "i = 0 \<or> research_iterations s \<noteq> []" using i0 by auto
  let ?slice_s = "if i = 0 then search_history s2
                  else filter (\<lambda>r. it_timestamp (last (research_iterations s)) < sr_timestamp r)
                         (search_history s2)"
  let ?slice_c = "if i = 0 then content_retrieval_history s2
                  else filter (\<lambda>c. it_timestamp (last (research_iterations s)) < fr_timestamp c)
                         (content_retrieval_history s2)"
  from loop_body_result [OF ok run, of q]
  obtain s' where body: "loop_body env q m i s = Inr s'"
    and its': "research_iterations s' = research_iterations s @
               [\<lparr>it_iteration = i + 1, it_query = q, it_response = resp,
                 it_search_queries = ?slice_s, it_content_retrievals = ?slice_c,
                 it_timestamp = now env (tick s2)\<rparr>]"
    and sh': "search_history s' = search_history s2"
    and ch': "content_retrieval_history s' = content_retrieval_history s2"
    and tk': "tick s' = Suc (tick s2)"
    by blast
  have step: "now env (tick s2) < now env (Suc (tick s2))"
    using mono by (simp add: strict_mono_less)
  have lo_le: "now env (tick s) \<le> now env (tick s2)"
    using mono tk by (simp add: strict_mono_less_eq)
  have slice_s: "?slice_s = news"
  proof (cases "i = 0")
    case True
    then have "search_history s = []" using i0 cs by simp
    then show ?thesis using True sh2 by simp
  next
    case False
    then have ne: "research_iterations s \<noteq> []" using i0 by simp
    have "\<forall>r\<in>set news. it_timestamp (last (research_iterations s)) < sr_timestamp r"
      using lastT [OF ne] news_lo by fastforce
    then show ?thesis
      using False sh2 lastT [OF ne] slice_is_new [of "search_history s" sr_timestamp _ news]
      by simp
  qed
  have slice_c: "?slice_c = newc"
  proof (cases "i = 0")
    case True
    then have "content_retrieval_history s = []" using i0 cc by simp
    then show ?thesis using True ch2 by simp
  next
    case False
    then have ne: "research_iterations s \<noteq> []" using i0 by simp
    have "\<forall>c\<in>set newc. it_timestamp (last (research_iterations s)) < fr_timestamp c"
      using lastT [OF ne] newc_lo by fastforce
    then show ?thesis
      using False ch2 lastT [OF ne]
        slice_is_new [of "content_retrieval_history s" fr_timestamp _ newc]
      by simp
  qed
  have c1: "concat (map it_search_queries (research_iterations s')) = search_history s'"
    using its' slice_s cs sh' sh2 by simp
  have c2: "concat (map it_content_retrievals (research_iterations s'))
              = content_retrieval_history s'"
    using its' slice_c cc ch' ch2 by simp
  have c3: "sorted_wrt (<) (map sr_timestamp (search_history s'))"
    using sorted_extend [OF so_s news_sorted old_s news_lo] sh' sh2 by simp
  have c4: "sorted_wrt (<) (map fr_timestamp (content_retrieval_history s'))"
    using sorted_extend [OF so_c newc_sorted old_c newc_lo] ch' ch2 by simp
  have c5: "\<forall>r\<in>set (search_history s'). sr_timestamp r < now env (tick s2)"
    using sh' sh2 old_s news_hi lo_le by fastforce
  have c6: "\<forall>c\<in>set (content_retrieval_history s'). fr_timestamp c < now env (tick s2)"
    using ch' ch2 old_c newc_hi lo_le by fastforce
  have c7: "it_timestamp (last (research_iterations s')) = now env (tick s2)"
    using its' by simp
  have c8: "research_iterations s' \<noteq> []" using its' by simp
  have "loop_inv env (Suc i) s'"
    unfolding loop_inv_def
    using c1 c2 c3 c4 c5 c6 c7 c8 step tk' by fastforce
  then show ?thesis using body by blast
qed

lemma for_range_keeps_inv:
  assumes "strict_mono (now env)" and "loop_inv env i s"
  shows "\<exists>s'. for_range env q m [i..<i + k] s = Inr s' \<and> loop_inv env (i + k) s'"
  using assms(2)
proof (induction k arbitrary: i s)
  case 0
  then show ?case by simp
next
  case (Suc k)
  from loop_body_keeps_inv [OF assms(1) Suc.prems, of q m]
  obtain s1 where body: "loop_body env q m i s = Inr s1" and inv1: "loop_inv env (Suc i) s1"
    by blast
  from Suc.IH [OF inv1] obtain s' where
    rest: "for_range env q m [Suc i..<Suc i + k] s1 = Inr s'"
    and inv': "loop_inv env (Suc i + k) s'"
    by blast
  have split: "[i..<i + Suc k] = i # [Suc i..<Suc i + k]"
    using upt_conv_Cons [of i "i + Suc k"] by simp
  have "for_range env q m [i..<i + Suc k] s = Inr s'"
    by (simp only: split for_range.simps body sum.case rest)
  then show ?case using inv' by auto
qed

lemma run_iterations_keeps_inv:
  assumes "strict_mono (now env)"
    and "research_iterations s = []" and "search_history s = []"
    and "content_retrieval_history s = []"
  shows "\<exists>s'. run_iterations env q m s = Inr s' \<and> loop_inv env (nat m) s'"
proof -
  let ?s3 = "initialize_conversation q
      (update_progress env (''Planning '' @ show_int m @ '' research iterations'')
         ''info'' None None
         (update_progress env (''Starting research on: '' @ SQ @ q @ SQ) ''info'' None None s))"
  have "loop_inv env 0 ?s3"
    using assms(2-4) by (simp add: loop_inv_def)
  from for_range_keeps_inv [OF assms(1) this, of q m "nat m"]
  show ?thesis
    by (simp add: run_iterations_def Let_def)
qed

lemma final_synthesis_data:
  "rd_iterations (snd (fst (final_synthesis env q m s))) = research_iterations s
   \<and> rd_search_history (snd (fst (final_synthesis env q m s))) = search_history s
   \<and> rd_content_retrieval_history (snd (fst (final_synthesis env q m s)))
       = content_retrieval_history s"
  by (simp add: final_synthesis_def call_claude_def read_clock_def Let_def
      split: sum.splits prod.splits)

lemma sorted_stamps_distinct:
  fixes stamp :: "'a \<Rightarrow> nat"
  assumes "sorted_wrt (<) (map stamp xs)"
  shows "distinct xs"
  using assms strict_sorted_iff distinct_map
  by (metis sorted_wrt_map distinct_map strict_sorted_iff)

lemma concat_distinct_unique:
  assumes "distinct (concat xss)" and "x \<in> set (concat xss)"
  shows "\<exists>!k. k < length xss \<and> x \<in> set (xss ! k)"
  using assms
proof (induction xss)
  case Nil
  then show ?case by simp
next
  case (Cons xs xss)
  have d: "distinct xs" "distinct (concat xss)" "set xs \<inter> set (concat xss) = {}"
    using Cons.prems(1) by auto
  show ?case
  proof (cases "x \<in> set xs")
    case True
    then have notin: "x \<notin> set (concat xss)" using d(3) by auto
    have "\<And>k. k < length (xs # xss) \<Longrightarrow> x \<in> set ((xs # xss) ! k) \<Longrightarrow> k = 0"
    proof -
      fix k assume k: "k < length (xs # xss)" "x \<in> set ((xs # xss) ! k)"
      show "k = 0"
      proof (cases k)
        case 0 then show ?thesis .
      next
        case (Suc j)
        then have jj: "j < length xss" "x \<in> set (xss ! j)" using k by auto
        then have "xss ! j \<in> set xss" by simp
        then have "x \<in> set (concat xss)" using jj(2) by auto
        then show ?thesis using notin by simp
      qed
    qed
    then show ?thesis using True by (intro ex1I [of _ 0]) auto
  next
    case False
    then have "x \<in> set (concat xss)" using Cons.prems(2) by auto
    from Cons.IH [OF d(2) this] obtain j where
      j: "j < length xss" "x \<in> set (xss ! j)"
      and uniq: "\<And>k. k < length xss \<Longrightarrow> x \<in> set (xss ! k) \<Longrightarrow> k = j"
      by blast
    have "\<And>k. k < length (xs # xss) \<Longrightarrow> x \<in> set ((xs # xss) ! k) \<Longrightarrow> k = Suc j"
    proof -
      fix k assume k: "k < length (xs # xss)" "x \<in> set ((xs # xss) ! k)"
      show "k = Suc j"
      proof (cases k)
        case 0 then show ?thesis using k False by simp
      next
        case (Suc i)
        then have "i < length xss" "x \<in> set (xss ! i)" using k by auto
        then show ?thesis using uniq Suc by simp
      qed
    qed
    then show ?thesis using j by (intro ex1I [of _ "Suc j"]) auto
  qed
qed

text \<open>
  Claim C4. On a new researcher, with a clock that reads strictly later at every later
  interaction, the run returns a session in which the slices of the search history kept in
  the iteration records, put end to end, are the search history, and likewise for the
  content retrievals; the records of each history are pairwise different, so each of them
  is in the slice of exactly one iteration record.
\<close>

theorem attribution_partitions_histories:
  assumes "strict_mono (now env)"
    and "research_iterations s = []" and "search_history s = []"
    and "content_retrieval_history s = []"
  shows "\<exists>report data s'.
           run_research_loop env user_query max_iterations s = Inr ((report, data), s')
         \<and> concat (map it_search_queries (rd_iterations data)) = rd_search_history data
         \<and> concat (map it_content_retrievals (rd_iterations data))
             = rd_content_retrieval_history data
         \<and> distinct (rd_search_history data)
         \<and> distinct (rd_content_retrieval_history data)
         \<and> (\<forall>r\<in>set (rd_search_history data).
               \<exists>!k. k < length (rd_iterations data)
                   \<and> r \<in> set (it_search_queries (rd_iterations data ! k)))
         \<and> (\<forall>c\<in>set (rd_content_retrieval_history data).
               \<exists>!k. k < length (rd_iterations data)
                   \<and> c \<in> set (it_content_retrievals (rd_iterations data ! k)))"
proof -
  from run_iterations_keeps_inv [OF assms, of user_query max_iterations]
  obtain s1 where loop: "run_iterations env user_query max_iterations s = Inr s1"
    and inv: "loop_inv env (nat max_iterations) s1"
    by blast
  obtain report data s' where fin:
    "final_synthesis env user_query max_iterations s1 = ((report, data), s')"
    by (metis surj_pair)
  have run: "run_research_loop env user_query max_iterations s = Inr ((report, data), s')"
    using loop fin by (simp add: run_research_loop_def)
  have fields: "rd_iterations data = research_iterations s1"
    "rd_search_history data = search_history s1"
    "rd_content_retrieval_history data = content_retrieval_history s1"
    using final_synthesis_data [of env user_query max_iterations s1] fin by simp_all
  have cs: "concat (map it_search_queries (rd_iterations data)) = rd_search_history data"
    and cc: "concat (map it_content_retrievals (rd_iterations data))
               = rd_content_retrieval_history data"
    and ds: "distinct (rd_search_history data)"
    and dc: "distinct (rd_content_retrieval_history data)"
    using inv fields sorted_stamps_distinct [of sr_timestamp "search_history s1"]
      sorted_stamps_distinct [of fr_timestamp "content_retrieval_history s1"]
    unfolding loop_inv_def by simp_all
  have us: "\<exists>!k. k < length (rd_iterations data)
                   \<and> r \<in> set (it_search_queries (rd_iterations data ! k))"
    if "r \<in> set (rd_search_history data)" for r
    using concat_distinct_unique [of "map it_search_queries (rd_iterations data)" r]
      that cs ds by (simp cong: conj_cong)
  have uc: "\<exists>!k. k < length (rd_iterations data)
                   \<and> c \<in> set (it_content_retrievals (rd_iterations data ! k))"
    if "c \<in> set (rd_content_retrieval_history data)" for c
    using concat_distinct_unique [of "map it_content_retrievals (rd_iterations data)" c]
      that cc dc by (simp cong: conj_cong)
  show ?thesis
    using run cs cc ds dc us uc by blast
qed

text \<open>
  The sample run: no search in the first iteration, one in each of the other two.
\<close>

theorem attribution_partitions_histories_witness:
  "strict_mono (now sample_env)
   \<and> (\<exists>report data s'. run_research_loop sample_env ''q'' 3 init_state = Inr ((report, data), s')
         \<and> map (map sr_timestamp \<circ> it_search_queries) (rd_iterations data) = [[], [4], [9]]
         \<and> map sr_timestamp (rd_search_history data) = [4, 9]
         \<and> concat (map it_search_queries (rd_iterations data)) = rd_search_history data
         \<and> concat (map it_content_retrievals (rd_iterations data))
             = rd_content_retrieval_history data)"
proof -
  have mono: "strict_mono (now sample_env)"
    by (simp add: sample_env_def strict_mono_def)
  have fresh: "research_iterations init_state = []" "search_history init_state = []"
    "content_retrieval_history init_state = []"
    by (simp_all add: init_state_def)
  from attribution_partitions_histories [OF mono fresh, of "''q''" 3]
  obtain report data s' where
    run: "run_research_loop sample_env ''q'' 3 init_state = Inr ((report, data), s')"
    and cs: "concat (map it_search_queries (rd_iterations data)) = rd_search_history data"
    and cc: "concat (map it_content_retrievals (rd_iterations data))
             = rd_content_retrieval_history data"
    by blast
  obtain s1 where loop: "run_iterations sample_env ''q'' 3 init_state = Inr s1"
    using run by (auto simp: run_research_loop_def split: sum.splits)
  have s1: "research_iterations s1 = fst (projr (map_sum id
        (\<lambda>s. (research_iterations s, search_history s, content_retrieval_history s, tick s))
        (run_iterations sample_env ''q'' 3 init_state)))"
    "search_history s1 = fst (snd (projr (map_sum id
        (\<lambda>s. (research_iterations s, search_history s, content_retrieval_history s, tick s))
        (run_iterations sample_env ''q'' 3 init_state))))"
    using loop by simp_all
  have fields: "rd_iterations data = research_iterations s1"
    "rd_search_history data = search_history s1"
    using final_synthesis_data [of sample_env "''q''" 3 s1] run loop
    by (simp_all add: run_research_loop_def)
  have "map (map sr_timestamp \<circ> it_search_queries) (rd_iterations data) = [[], [4], [9]]"
    unfolding fields s1 sample_loop by simp
  moreover have "map sr_timestamp (rd_search_history data) = [4, 9]"
    unfolding fields s1 sample_loop by simp
  ultimately show ?thesis
    using mono run cs cc by (intro conjI exI [of _ report] exI [of _ data] exI [of _ s'])
qed

section \<open>Tool invocations of one response\<close>

















section \<open>Errors of the model and faults of the providers\<close>




















end
